theory Spec2Isabelle
  imports Main
begin

section \<open>Torch types, values and the instruction builder\<close>

text \<open>
  The part of the Torch dialect's type hierarchy that ReifyDtypeCalculations.cpp inspects.
  \<open>Torch::BaseTensorType\<close> is the common base of the two tensor types; every type the
  pass does not look into is an \<open>OtherType\<close> carrying its printed name.
\<close>

datatype torch_type =
    NonValueTensorType
  | ValueTensorType
  | OptionalType torch_type
  | ListType torch_type
  | TupleType "torch_type list"
  | IntType
  | FloatType
  | OtherType string

fun isa_BaseTensorType :: "torch_type \<Rightarrow> bool" where
  "isa_BaseTensorType NonValueTensorType = True"
| "isa_BaseTensorType ValueTensorType = True"
| "isa_BaseTensorType _ = False"

fun isa_TupleType :: "torch_type \<Rightarrow> bool" where
  "isa_TupleType (TupleType ts) = True"
| "isa_TupleType _ = False"

fun isa_IntType :: "torch_type \<Rightarrow> bool" where
  "isa_IntType IntType = True"
| "isa_IntType _ = False"

text \<open>
  An SSA value is either a value that exists before the pass touches the operation (an
  operand, identified by a number, with its type) or the result of an instruction created
  through the builder. \<open>CreatedOp\<close> stands for instructions created by collaborators
  outside this file. Source locations only feed diagnostics and are left out.
\<close>

datatype val =
    Operand nat torch_type
  | AtenSizeOp torch_type val
  | AtenLenTOp torch_type val
  | PrimDtypeOp torch_type val
  | CreatedOp string torch_type "val list"

fun getType :: "val \<Rightarrow> torch_type" where
  "getType (Operand n t) = t"
| "getType (AtenSizeOp t v) = t"
| "getType (AtenLenTOp t v) = t"
| "getType (PrimDtypeOp t v) = t"
| "getType (CreatedOp nm t vs) = t"

text \<open>
  \<open>OpBuilder\<close>: the instructions created so far at the insertion point, oldest first.
  \<open>b.create<Op>(...)\<close> appends the instruction and yields its result.
\<close>

type_synonym OpBuilder = "val list"

definition create :: "OpBuilder \<Rightarrow> val \<Rightarrow> val \<times> OpBuilder" where
  "create b instr = (instr, b @ [instr])"

text \<open>
  A call either returns or stops the process on a failed \<open>assert\<close> (the model is the
  build with assertions enabled). \<open>FailureOr<T>\<close> is \<open>T option\<close>, \<open>failure()\<close> being None.
\<close>

datatype 'a run = AssertionFailed | Returned 'a

section \<open>isTensorTypeOrWrappedTensorType\<close>

fun isTensorTypeOrWrappedTensorType :: "torch_type \<Rightarrow> bool run" where
  "isTensorTypeOrWrappedTensorType (TupleType ts) = AssertionFailed"
| "isTensorTypeOrWrappedTensorType NonValueTensorType = Returned True"
| "isTensorTypeOrWrappedTensorType ValueTensorType = Returned True"
| "isTensorTypeOrWrappedTensorType (OptionalType t) = isTensorTypeOrWrappedTensorType t"
| "isTensorTypeOrWrappedTensorType (ListType t) = isTensorTypeOrWrappedTensorType t"
| "isTensorTypeOrWrappedTensorType IntType = Returned False"
| "isTensorTypeOrWrappedTensorType FloatType = Returned False"
| "isTensorTypeOrWrappedTensorType (OtherType nm) = Returned False"

text \<open>\<open>getContainedType\<close> of the two wrapper types the classifier unwraps.\<close>

fun getContainedType :: "torch_type \<Rightarrow> torch_type option" where
  "getContainedType (OptionalType t) = Some t"
| "getContainedType (ListType t) = Some t"
| "getContainedType _ = None"

text \<open>
  The types the classifier is invoked on when called with a type: the type itself, then
  the contained type of each Optional or List it unwraps. A tensor type and a tuple type
  end the chain (the first returns, the second fails the assertion).
\<close>

fun classifierCalls :: "torch_type \<Rightarrow> torch_type list" where
  "classifierCalls (OptionalType t) = OptionalType t # classifierCalls t"
| "classifierCalls (ListType t) = ListType t # classifierCalls t"
| "classifierCalls t = [t]"

section \<open>The local adjusters of dtypeFunctionArgsBuilder\<close>

type_synonym transformation = "OpBuilder \<Rightarrow> val \<Rightarrow> torch_type \<Rightarrow> val \<times> OpBuilder"

definition rankArgAdjuster :: transformation where
  "rankArgAdjuster b operand desiredType =
     (if isa_IntType desiredType \<and> isa_BaseTensorType (getType operand) then
        let sizeListType = ListType IntType;
            (size, b1) = create b (AtenSizeOp sizeListType operand)
        in create b1 (AtenLenTOp desiredType size)
      else (operand, b))"

definition dtypeArgAdjuster :: transformation where
  "dtypeArgAdjuster b operand desiredType =
     (if isa_IntType desiredType \<and> isa_BaseTensorType (getType operand) then
        create b (PrimDtypeOp desiredType operand)
      else (operand, b))"

section \<open>dtypeFunctionArgsBuilder\<close>

text \<open>
  \<open>adjustFunctionArg\<close> is declared in ReifyAbstractInterpCalculationsUtils.h and defined
  outside this file; the builder takes it as a parameter. Its last argument is the base
  transformation, None where the call site omits it.
\<close>

type_synonym adjuster =
  "OpBuilder \<Rightarrow> val \<Rightarrow> torch_type \<Rightarrow> transformation option \<Rightarrow> val option \<times> OpBuilder"

record FuncOp =
  symName :: string
  getArgumentTypes :: "torch_type list"

text \<open>
  The loop over \<open>originalOperands\<close>. Its state is the builder, the operands still to
  visit, the cursor \<open>desiredTypes\<close> and the list \<open>dtypeFuncArgs\<close>; on normal exit it
  hands back the list together with what is left of the cursor.
\<close>

fun dtypeFunctionArgsBuilder_loop ::
  "adjuster \<Rightarrow> OpBuilder \<Rightarrow> val list \<Rightarrow> torch_type list \<Rightarrow> val list
     \<Rightarrow> ((val list \<times> torch_type list) option \<times> OpBuilder) run" where
  "dtypeFunctionArgsBuilder_loop adjustFunctionArg b [] desiredTypes dtypeFuncArgs =
     Returned (Some (dtypeFuncArgs, desiredTypes), b)"
| "dtypeFunctionArgsBuilder_loop adjustFunctionArg b (operand # rest) desiredTypes dtypeFuncArgs =
     (if desiredTypes = [] then AssertionFailed
      else
        (case isTensorTypeOrWrappedTensorType (getType operand) of
           AssertionFailed \<Rightarrow> AssertionFailed
         | Returned True \<Rightarrow>
             (if length desiredTypes < 2 then AssertionFailed
              else
                (case adjustFunctionArg b operand (hd desiredTypes) (Some rankArgAdjuster) of
                   (None, b1) \<Rightarrow> Returned (None, b1)
                 | (Some rankArg, b1) \<Rightarrow>
                     (case adjustFunctionArg b1 operand (hd (tl desiredTypes))
                             (Some dtypeArgAdjuster) of
                        (None, b2) \<Rightarrow> Returned (None, b2)
                      | (Some dtypeArg, b2) \<Rightarrow>
                          dtypeFunctionArgsBuilder_loop adjustFunctionArg b2 rest
                            (tl (tl desiredTypes)) (dtypeFuncArgs @ [rankArg, dtypeArg]))))
         | Returned False \<Rightarrow>
             (case adjustFunctionArg b operand (hd desiredTypes) None of
                (None, b1) \<Rightarrow> Returned (None, b1)
              | (Some otherArg, b1) \<Rightarrow>
                  dtypeFunctionArgsBuilder_loop adjustFunctionArg b1 rest
                    (tl desiredTypes) (dtypeFuncArgs @ [otherArg]))))"

definition dtypeFunctionArgsBuilder ::
  "adjuster \<Rightarrow> OpBuilder \<Rightarrow> val list \<Rightarrow> FuncOp \<Rightarrow> (val list option \<times> OpBuilder) run" where
  "dtypeFunctionArgsBuilder adjustFunctionArg b originalOperands dtypeFunc =
     (case dtypeFunctionArgsBuilder_loop adjustFunctionArg b originalOperands
             (getArgumentTypes dtypeFunc) [] of
        AssertionFailed \<Rightarrow> AssertionFailed
      | Returned (None, b') \<Rightarrow> Returned (None, b')
      | Returned (Some (dtypeFuncArgs, desiredTypes), b') \<Rightarrow> Returned (Some dtypeFuncArgs, b'))"

section \<open>ReifyDtypeCalculationsPass::runOnOperation\<close>

datatype WalkResult = Advance | Interrupt

definition wasInterrupted :: "WalkResult \<Rightarrow> bool" where
  "wasInterrupted r = (r = Interrupt)"

datatype LibraryFunctionKind = ShapeFunction | DtypeFunction

record operation =
  getName :: string
  getOperands :: "val list"

type_synonym argsBuilder =
  "OpBuilder \<Rightarrow> val list \<Rightarrow> FuncOp \<Rightarrow> (val list option \<times> OpBuilder) run"

text \<open>
  \<open>wrapWithCalculateOpIfLibraryFunctionAvailable\<close> and \<open>importLibraryFunctions\<close> are
  declared in ReifyAbstractInterpCalculationsUtils.h and defined outside this file; the
  pass takes them as parameters. The wrap utility receives \<open>functionsNeeded\<close> by
  reference and rewrites the module in place, so it returns both with the walk signal;
  it runs the arguments builder and stops the process when an assertion there fails.
\<close>

type_synonym ('lib, 'm) wrapper =
  "operation \<Rightarrow> 'lib \<Rightarrow> LibraryFunctionKind \<Rightarrow> string list \<Rightarrow> argsBuilder \<Rightarrow> 'm
     \<Rightarrow> (WalkResult \<times> string list \<times> 'm) run"

type_synonym ('lib, 'm) importer = "'m \<Rightarrow> 'lib \<Rightarrow> string list \<Rightarrow> 'm"

text \<open>
  \<open>walk\<close> calls the callback on each operation in turn and stops at the first one
  that asks for an interrupt. The list is the module's operations in the order
  \<open>module.walk\<close> reaches them.
\<close>

fun walk ::
  "(operation \<Rightarrow> 's \<Rightarrow> (WalkResult \<times> 's) run) \<Rightarrow> operation list \<Rightarrow> 's
     \<Rightarrow> (WalkResult \<times> 's) run" where
  "walk callback [] s = Returned (Advance, s)"
| "walk callback (op # ops) s =
     (case callback op s of
        AssertionFailed \<Rightarrow> AssertionFailed
      | Returned (Interrupt, s') \<Rightarrow> Returned (Interrupt, s')
      | Returned (Advance, s') \<Rightarrow> walk callback ops s')"

text \<open>The walk of \<open>runOnOperation\<close>, started with an empty \<open>functionsNeeded\<close>.\<close>

definition walkModule ::
  "('lib, 'm) wrapper \<Rightarrow> adjuster \<Rightarrow> 'lib \<Rightarrow> 'm \<Rightarrow> operation list
     \<Rightarrow> (WalkResult \<times> string list \<times> 'm) run" where
  "walkModule wrapWithCalculateOp adjustFunctionArg library module ops =
     walk (\<lambda>op (functionsNeeded, m).
             wrapWithCalculateOp op library DtypeFunction functionsNeeded
               (dtypeFunctionArgsBuilder adjustFunctionArg) m)
       ops ([], module)"

text \<open>
  What a run of the pass leaves behind: whether \<open>signalPassFailure\<close> was called, the
  argument of each call of \<open>importLibraryFunctions\<close> in order, and the module.
\<close>

record 'm pass_state =
  signalledFailure :: bool
  importCalls :: "string list list"
  moduleOp :: 'm

definition runOnOperation ::
  "('lib, 'm) wrapper \<Rightarrow> ('lib, 'm) importer \<Rightarrow> adjuster \<Rightarrow> 'lib \<Rightarrow> 'm \<Rightarrow> operation list
     \<Rightarrow> 'm pass_state run" where
  "runOnOperation wrapWithCalculateOp importFunctions adjustFunctionArg library module ops =
     (case walkModule wrapWithCalculateOp adjustFunctionArg library module ops of
        AssertionFailed \<Rightarrow> AssertionFailed
      | Returned (walkResult, functionsNeeded, m) \<Rightarrow>
          (if wasInterrupted walkResult then
             Returned \<lparr>signalledFailure = True, importCalls = [], moduleOp = m\<rparr>
           else
             Returned \<lparr>signalledFailure = False, importCalls = [functionsNeeded],
                       moduleOp = importFunctions m library functionsNeeded\<rparr>))"

section \<open>The collaborators defined outside this file\<close>

text \<open>
  Modelled from the spec: \<open>adjustFunctionArg\<close>, the generic single-slot adjuster, whose
  definition is missing. The spec has it coerce the (transformed) operand to the slot's
  declared type, passing it through unchanged where it fits and failing where no legal
  coercion exists. Only the identity pass-through is modelled: a value whose type is not
  the declared one is a failure.
\<close>

definition adjustFunctionArg :: adjuster where
  "adjustFunctionArg b operand desiredType baseTransformation =
     (let (v, b1) = (case baseTransformation of
                       None \<Rightarrow> (operand, b)
                     | Some f \<Rightarrow> f b operand desiredType)
      in if getType v = desiredType then (Some v, b1) else (None, b1))"

text \<open>
  Modelled from the spec: the function library, whose parser is missing. It is an
  immutable lookup table of shadow functions keyed by operation name and kind.
\<close>

type_synonym library = "((string \<times> LibraryFunctionKind) \<times> FuncOp) list"

text \<open>
  Modelled from the spec: the needed-function set, an ordered, duplicate-free
  accumulation of names. Making it include a name keeps the names it has and puts a new
  name last.
\<close>

definition includeName :: "string \<Rightarrow> string list \<Rightarrow> string list" where
  "includeName n names = (if n \<in> set names then names else names @ [n])"

text \<open>
  Modelled from the spec: the contract of the wrap utility, whose definition is missing.
  An operation with no shadow function of the given kind is left untouched and the walk
  continues; when the utility wraps an operation and signals to continue, it has made the
  needed-function set include the name of the shadow function it used.
\<close>

definition wrapContract :: "(library, 'm) wrapper \<Rightarrow> bool" where
  "wrapContract wrapWithCalculateOp =
     (\<forall>op lib kind neededSet adapter m.
        (case map_of lib (getName op, kind) of
           None \<Rightarrow> wrapWithCalculateOp op lib kind neededSet adapter m
                     = Returned (Advance, neededSet, m)
         | Some shadow \<Rightarrow>
             (\<forall>neededSet' m'.
                wrapWithCalculateOp op lib kind neededSet adapter m
                  = Returned (Advance, neededSet', m')
                \<longrightarrow> neededSet' = includeName (symName shadow) neededSet)))"

text \<open>
  Modelled from the spec: a module as the wrap and import utilities leave it, as far as
  the spec describes it: the instructions the operand adapter emitted, the wrapping
  constructs created (operation name, shadow function name, adapted operands) and the
  names of the library functions spliced in.
\<close>

record module_ir =
  instructions :: OpBuilder
  calculateOps :: "(string \<times> string \<times> val list) list"
  importedFunctions :: "string list"

text \<open>
  Modelled from the spec: \<open>wrapWithCalculateOpIfLibraryFunctionAvailable\<close>, whose
  definition is missing. It looks the operation's name up in the library; with no match
  it does nothing and continues. Otherwise it calls the operand adapter once with the
  operation's operands and the matched function, interrupts when the adapter fails, and
  on success records the wrapping construct and the function's name and continues.
\<close>

definition wrapWithCalculateOpIfLibraryFunctionAvailable :: "(library, module_ir) wrapper" where
  "wrapWithCalculateOpIfLibraryFunctionAvailable op lib kind neededSet operandAdapter m =
     (case map_of lib (getName op, kind) of
        None \<Rightarrow> Returned (Advance, neededSet, m)
      | Some shadow \<Rightarrow>
          (case operandAdapter (instructions m) (getOperands op) shadow of
             AssertionFailed \<Rightarrow> AssertionFailed
           | Returned (None, b) \<Rightarrow> Returned (Interrupt, neededSet, m\<lparr>instructions := b\<rparr>)
           | Returned (Some args, b) \<Rightarrow>
               Returned (Advance, includeName (symName shadow) neededSet,
                 m\<lparr>instructions := b,
                   calculateOps := calculateOps m @ [(getName op, symName shadow, args)]\<rparr>)))"

text \<open>
  Modelled from the spec: \<open>importLibraryFunctions\<close>, whose definition is missing. It
  splices the named functions into the program and is idempotent with respect to
  functions already present. Shadow function bodies are opaque here, so no transitive
  callee is followed.
\<close>

definition importLibraryFunctions :: "(library, module_ir) importer" where
  "importLibraryFunctions m lib neededNames =
     m\<lparr>importedFunctions :=
         importedFunctions m @ filter (\<lambda>n. n \<notin> set (importedFunctions m)) (remdups neededNames)\<rparr>"

text \<open>
  The names of the shadow functions that the operations of a walk match in the library,
  one per matching operation, in the order the walk visits the operations.
\<close>

definition shadowFunctionsUsed :: "library \<Rightarrow> operation list \<Rightarrow> string list" where
  "shadowFunctionsUsed lib ops =
     List.map_filter (\<lambda>op. map_option symName (map_of lib (getName op, DtypeFunction))) ops"

section \<open>Example programs\<close>

text \<open>
  A small library with three dtype functions, and operations to run the pass on: a unary
  tensor operation, a tensor-and-integer operation, an operation whose string operand no
  adjustment can turn into the integer its dtype function declares, and an operation the
  library has no dtype function for.
\<close>

definition tanhOp :: operation where
  "tanhOp = \<lparr>getName = ''aten.tanh'', getOperands = [Operand 0 ValueTensorType]\<rparr>"

definition addOp :: operation where
  "addOp = \<lparr>getName = ''aten.add'',
             getOperands = [Operand 0 ValueTensorType, Operand 1 IntType]\<rparr>"

definition formatOp :: operation where
  "formatOp = \<lparr>getName = ''aten.format'', getOperands = [Operand 2 (OtherType ''str'')]\<rparr>"


definition tanhDtype :: FuncOp where
  "tanhDtype = \<lparr>symName = ''tanh_dtype'', getArgumentTypes = [IntType, IntType]\<rparr>"

definition addDtype :: FuncOp where
  "addDtype = \<lparr>symName = ''add_dtype'', getArgumentTypes = [IntType, IntType, IntType]\<rparr>"

definition formatDtype :: FuncOp where
  "formatDtype = \<lparr>symName = ''format_dtype'', getArgumentTypes = [IntType]\<rparr>"

definition exampleLibrary :: library where
  "exampleLibrary =
     [((''aten.tanh'', DtypeFunction), tanhDtype),
      ((''aten.add'', DtypeFunction), addDtype),
      ((''aten.format'', DtypeFunction), formatDtype)]"

definition emptyModule :: module_ir where
  "emptyModule = \<lparr>instructions = [], calculateOps = [], importedFunctions = []\<rparr>"

text \<open>The empty module after the unary tensor operation has been wrapped.\<close>

definition tanhWrappedModule :: module_ir where
  "tanhWrappedModule =
     \<lparr>instructions =
        [AtenSizeOp (ListType IntType) (Operand 0 ValueTensorType),
         AtenLenTOp IntType (AtenSizeOp (ListType IntType) (Operand 0 ValueTensorType)),
         PrimDtypeOp IntType (Operand 0 ValueTensorType)],
      calculateOps =
        [(''aten.tanh'', ''tanh_dtype'',
          [AtenLenTOp IntType (AtenSizeOp (ListType IntType) (Operand 0 ValueTensorType)),
           PrimDtypeOp IntType (Operand 0 ValueTensorType)])],
      importedFunctions = []\<rparr>"



section \<open>Properties of the classifier\<close>

lemma classifierCalls_not_Nil: "classifierCalls t \<noteq> []"
  by (induction t rule: classifierCalls.induct) simp_all

text \<open>
  The classifier's answer is decided by the type at which the chain of calls ends.
\<close>

lemma isTensorTypeOrWrappedTensorType_last_call:
  "isTensorTypeOrWrappedTensorType t =
     (case last (classifierCalls t) of
        TupleType ts \<Rightarrow> AssertionFailed
      | NonValueTensorType \<Rightarrow> Returned True
      | ValueTensorType \<Rightarrow> Returned True
      | _ \<Rightarrow> Returned False)"
  by (induction t rule: classifierCalls.induct) (simp_all add: classifierCalls_not_Nil)

lemma tuple_call_is_last:
  "(\<exists>ts. TupleType ts \<in> set (classifierCalls t)) = isa_TupleType (last (classifierCalls t))"
  by (induction t rule: classifierCalls.induct) (auto simp: classifierCalls_not_Nil)

text \<open>
  C4. On a type that is not a tuple type the classifier returns true for a tensor type,
  the classification of the contained type for an Optional or a List, and false for every
  other type. It is a function of the type alone: it reads and changes no state.
\<close>

theorem isTensorTypeOrWrappedTensorType_non_tuple:
  "\<not> isa_TupleType t \<Longrightarrow>
   isTensorTypeOrWrappedTensorType t =
     (if isa_BaseTensorType t then Returned True
      else (case getContainedType t of
              Some inner \<Rightarrow> isTensorTypeOrWrappedTensorType inner
            | None \<Rightarrow> Returned False))"
  by (cases t) simp_all

theorem isTensorTypeOrWrappedTensorType_non_tuple_witness:
  "\<not> isa_TupleType (OptionalType (ListType ValueTensorType)) \<and>
   isTensorTypeOrWrappedTensorType (OptionalType (ListType ValueTensorType)) =
     isTensorTypeOrWrappedTensorType (ListType ValueTensorType) \<and>
   isTensorTypeOrWrappedTensorType (OptionalType (ListType ValueTensorType)) = Returned True"
  using isTensorTypeOrWrappedTensorType_non_tuple [of "OptionalType (ListType ValueTensorType)"]
  by simp

text \<open>
  C5. On a tuple type the classifier fails its assertion; it returns neither false nor any
  other boolean. The assertion is reached exactly when one of the types the classifier is
  invoked on (the operand's type, or a type it unwraps from an Optional or a List on the
  way) is a tuple type; so it is unreachable when no tuple type reaches the classifier,
  and an Optional or List of a tuple does reach it.
\<close>

theorem isTensorTypeOrWrappedTensorType_tuple_asserts:
  "isTensorTypeOrWrappedTensorType (TupleType ts) = AssertionFailed \<and>
   isTensorTypeOrWrappedTensorType (TupleType ts) \<noteq> Returned False \<and>
   isTensorTypeOrWrappedTensorType (OptionalType (TupleType ts)) = AssertionFailed \<and>
   isTensorTypeOrWrappedTensorType (ListType (TupleType ts)) = AssertionFailed \<and>
   (isTensorTypeOrWrappedTensorType t = AssertionFailed) =
     (\<exists>us. TupleType us \<in> set (classifierCalls t))"
proof -
  have "(isTensorTypeOrWrappedTensorType t = AssertionFailed) =
          isa_TupleType (last (classifierCalls t))"
    by (cases "last (classifierCalls t)")
       (simp_all add: isTensorTypeOrWrappedTensorType_last_call)
  then show ?thesis by (simp add: tuple_call_is_last)
qed

lemma tensor_type_classified:
  "isa_BaseTensorType t \<Longrightarrow> isTensorTypeOrWrappedTensorType t = Returned True"
  by (cases t) simp_all

section \<open>Properties of the local adjusters\<close>

lemma rankArgAdjuster_tensor:
  "isa_BaseTensorType (getType operand) \<Longrightarrow>
   rankArgAdjuster b operand IntType =
     (AtenLenTOp IntType (AtenSizeOp (ListType IntType) operand),
      b @ [AtenSizeOp (ListType IntType) operand,
           AtenLenTOp IntType (AtenSizeOp (ListType IntType) operand)])"
  by (simp add: rankArgAdjuster_def create_def Let_def)

lemma dtypeArgAdjuster_tensor:
  "isa_BaseTensorType (getType operand) \<Longrightarrow>
   dtypeArgAdjuster b operand IntType =
     (PrimDtypeOp IntType operand, b @ [PrimDtypeOp IntType operand])"
  by (simp add: dtypeArgAdjuster_def create_def)

lemma isa_IntType_iff: "isa_IntType t = (t = IntType)"
  by (cases t) simp_all

text \<open>
  C10. The local adjusters emit instructions only when the declared slot type is the Int
  type and the operand's type is directly a tensor type: then the rank adjuster emits the
  size-list instruction followed by the list-length instruction and yields the latter,
  and the dtype adjuster emits the dtype-extraction instruction and yields it. In every
  other case, in particular for an operand whose type is an Optional or a List, they
  yield the operand unchanged and emit nothing, so that whatever is done to such an
  operand is done by the generic adjuster they are handed to.
\<close>

theorem local_adjusters_guard:
  "(snd (rankArgAdjuster b operand desiredType) \<noteq> b
      \<longrightarrow> desiredType = IntType \<and> isa_BaseTensorType (getType operand)) \<and>
   (snd (dtypeArgAdjuster b operand desiredType) \<noteq> b
      \<longrightarrow> desiredType = IntType \<and> isa_BaseTensorType (getType operand)) \<and>
   (desiredType = IntType \<and> isa_BaseTensorType (getType operand) \<longrightarrow>
      rankArgAdjuster b operand desiredType =
        (AtenLenTOp IntType (AtenSizeOp (ListType IntType) operand),
         b @ [AtenSizeOp (ListType IntType) operand,
              AtenLenTOp IntType (AtenSizeOp (ListType IntType) operand)]) \<and>
      dtypeArgAdjuster b operand desiredType =
        (PrimDtypeOp IntType operand, b @ [PrimDtypeOp IntType operand])) \<and>
   (desiredType \<noteq> IntType \<or> \<not> isa_BaseTensorType (getType operand) \<longrightarrow>
      rankArgAdjuster b operand desiredType = (operand, b) \<and>
      dtypeArgAdjuster b operand desiredType = (operand, b)) \<and>
   (getType operand = OptionalType inner \<or> getType operand = ListType inner \<longrightarrow>
      rankArgAdjuster b operand desiredType = (operand, b) \<and>
      dtypeArgAdjuster b operand desiredType = (operand, b))"
  by (cases desiredType) (auto simp: rankArgAdjuster_def dtypeArgAdjuster_def create_def Let_def)

theorem local_adjusters_guard_witness:
  "rankArgAdjuster [] (Operand 0 ValueTensorType) IntType =
     (AtenLenTOp IntType (AtenSizeOp (ListType IntType) (Operand 0 ValueTensorType)),
      [AtenSizeOp (ListType IntType) (Operand 0 ValueTensorType),
       AtenLenTOp IntType (AtenSizeOp (ListType IntType) (Operand 0 ValueTensorType))]) \<and>
   dtypeArgAdjuster [] (Operand 0 ValueTensorType) IntType =
     (PrimDtypeOp IntType (Operand 0 ValueTensorType),
      [PrimDtypeOp IntType (Operand 0 ValueTensorType)]) \<and>
   rankArgAdjuster [] (Operand 0 (OptionalType ValueTensorType)) IntType =
     (Operand 0 (OptionalType ValueTensorType), []) \<and>
   dtypeArgAdjuster [] (Operand 0 (OptionalType ValueTensorType)) IntType =
     (Operand 0 (OptionalType ValueTensorType), []) \<and>
   rankArgAdjuster [] (Operand 0 ValueTensorType) FloatType = (Operand 0 ValueTensorType, [])"
proof -
  have tensor: "rankArgAdjuster [] (Operand 0 ValueTensorType) IntType =
     (AtenLenTOp IntType (AtenSizeOp (ListType IntType) (Operand 0 ValueTensorType)),
      [AtenSizeOp (ListType IntType) (Operand 0 ValueTensorType),
       AtenLenTOp IntType (AtenSizeOp (ListType IntType) (Operand 0 ValueTensorType))]) \<and>
   dtypeArgAdjuster [] (Operand 0 ValueTensorType) IntType =
     (PrimDtypeOp IntType (Operand 0 ValueTensorType),
      [PrimDtypeOp IntType (Operand 0 ValueTensorType)])"
    using local_adjusters_guard [of "[]" "Operand 0 ValueTensorType" IntType IntType]
    by simp
  have wrapped: "rankArgAdjuster [] (Operand 0 (OptionalType ValueTensorType)) IntType =
     (Operand 0 (OptionalType ValueTensorType), []) \<and>
   dtypeArgAdjuster [] (Operand 0 (OptionalType ValueTensorType)) IntType =
     (Operand 0 (OptionalType ValueTensorType), [])"
    using local_adjusters_guard [of "[]" "Operand 0 (OptionalType ValueTensorType)" IntType
      ValueTensorType]
    by simp
  have float: "rankArgAdjuster [] (Operand 0 ValueTensorType) FloatType =
     (Operand 0 ValueTensorType, [])"
    using local_adjusters_guard [of "[]" "Operand 0 ValueTensorType" FloatType IntType]
    by simp
  from tensor wrapped float show ?thesis by blast
qed

section \<open>Properties of dtypeFunctionArgsBuilder\<close>

text \<open>Visiting a list of operands is visiting a first part and then the rest.\<close>

lemma loop_append:
  "dtypeFunctionArgsBuilder_loop adj b (xs @ ys) tys acc =
     (case dtypeFunctionArgsBuilder_loop adj b xs tys acc of
        AssertionFailed \<Rightarrow> AssertionFailed
      | Returned (None, b') \<Rightarrow> Returned (None, b')
      | Returned (Some (acc', tys'), b') \<Rightarrow> dtypeFunctionArgsBuilder_loop adj b' ys tys' acc')"
  by (induction xs arbitrary: b tys acc)
     (auto split: run.splits bool.splits prod.splits option.splits)

text \<open>
  The cursor moves by one slot for each value appended: two for a tensor-bearing operand,
  one for any other.
\<close>

lemma loop_lengths:
  "dtypeFunctionArgsBuilder_loop adj b ops tys acc = Returned (Some (args, tys'), b') \<Longrightarrow>
   length args + length tys' = length acc + length tys \<and>
   length args = length acc + length ops
     + length (filter (\<lambda>v. isTensorTypeOrWrappedTensorType (getType v) = Returned True) ops)"
proof (induction ops arbitrary: b tys acc)
  case Nil
  then show ?case by simp
next
  case (Cons operand rest)
  show ?case
  proof (cases "isTensorTypeOrWrappedTensorType (getType operand)")
    case AssertionFailed
    with Cons.prems show ?thesis by (simp split: if_splits)
  next
    case (Returned isT)
    show ?thesis
    proof (cases isT)
      case True
      with Cons.prems Returned obtain rankArg dtypeArg b2 where
        len: "2 \<le> length tys" and
        rest: "dtypeFunctionArgsBuilder_loop adj b2 rest (tl (tl tys)) (acc @ [rankArg, dtypeArg])
                 = Returned (Some (args, tys'), b')"
        by (auto split: if_splits prod.splits option.splits)
      from Cons.IH [OF rest] len True Returned show ?thesis by (simp, arith)
    next
      case False
      with Cons.prems Returned obtain otherArg b1 where
        len: "tys \<noteq> []" and
        rest: "dtypeFunctionArgsBuilder_loop adj b1 rest (tl tys) (acc @ [otherArg])
                 = Returned (Some (args, tys'), b')"
        by (auto split: if_splits prod.splits option.splits)
      from Cons.IH [OF rest] len False Returned show ?thesis
        by (cases tys) simp_all
    qed
  qed
qed

text \<open>
  On normal exit the list built is the operands' contributions one after the other, each
  made from the slots the cursor stood on when the operand was visited.
\<close>

lemma loop_contributions:
  "dtypeFunctionArgsBuilder_loop adj b ops tys acc = Returned (Some (args, tys'), b') \<Longrightarrow>
   \<exists>css. length css = length ops \<and> args = acc @ concat css \<and>
     (\<forall>i<length ops.
        (case isTensorTypeOrWrappedTensorType (getType (ops ! i)) of
           AssertionFailed \<Rightarrow> False
         | Returned True \<Rightarrow>
             (\<exists>rankArg dtypeArg b1 b2 b3.
                css ! i = [rankArg, dtypeArg] \<and>
                Suc (length (concat (take i css))) < length tys \<and>
                adj b1 (ops ! i) (tys ! length (concat (take i css))) (Some rankArgAdjuster)
                  = (Some rankArg, b2) \<and>
                adj b2 (ops ! i) (tys ! Suc (length (concat (take i css)))) (Some dtypeArgAdjuster)
                  = (Some dtypeArg, b3))
         | Returned False \<Rightarrow>
             (\<exists>otherArg b1 b2.
                css ! i = [otherArg] \<and>
                length (concat (take i css)) < length tys \<and>
                adj b1 (ops ! i) (tys ! length (concat (take i css))) None
                  = (Some otherArg, b2))))"
proof (induction ops arbitrary: b tys acc)
  case Nil
  then show ?case by simp
next
  case (Cons operand rest)
  let ?each = "\<lambda>ops tys css. \<forall>i<length ops.
        (case isTensorTypeOrWrappedTensorType (getType (ops ! i)) of
           AssertionFailed \<Rightarrow> False
         | Returned True \<Rightarrow>
             (\<exists>rankArg dtypeArg b1 b2 b3.
                css ! i = [rankArg, dtypeArg] \<and>
                Suc (length (concat (take i css))) < length tys \<and>
                adj b1 (ops ! i) (tys ! length (concat (take i css))) (Some rankArgAdjuster)
                  = (Some rankArg, b2) \<and>
                adj b2 (ops ! i) (tys ! Suc (length (concat (take i css)))) (Some dtypeArgAdjuster)
                  = (Some dtypeArg, b3))
         | Returned False \<Rightarrow>
             (\<exists>otherArg b1 b2.
                css ! i = [otherArg] \<and>
                length (concat (take i css)) < length tys \<and>
                adj b1 (ops ! i) (tys ! length (concat (take i css))) None
                  = (Some otherArg, b2)))"
  show ?case
  proof (cases "isTensorTypeOrWrappedTensorType (getType operand)")
    case AssertionFailed
    with Cons.prems show ?thesis by (simp split: if_splits)
  next
    case (Returned isT)
    show ?thesis
    proof (cases isT)
      case True
      with Cons.prems Returned obtain rankArg dtypeArg b1 b2 where
        len: "2 \<le> length tys" and
        r: "adj b operand (hd tys) (Some rankArgAdjuster) = (Some rankArg, b1)" and
        d: "adj b1 operand (hd (tl tys)) (Some dtypeArgAdjuster) = (Some dtypeArg, b2)" and
        rest: "dtypeFunctionArgsBuilder_loop adj b2 rest (tl (tl tys)) (acc @ [rankArg, dtypeArg])
                 = Returned (Some (args, tys'), b')"
        by (auto split: if_splits prod.splits option.splits)
      from len obtain t1 t2 ts where tys: "tys = t1 # t2 # ts"
        by (cases tys; cases "tl tys") auto
      from Cons.IH [OF rest] obtain css where
        css: "length css = length rest" "args = (acc @ [rankArg, dtypeArg]) @ concat css" and
        each: "?each rest (tl (tl tys)) css"
        by blast
      let ?css = "[rankArg, dtypeArg] # css"
      have "length ?css = length (operand # rest)" using css by simp
      moreover have "args = acc @ concat ?css" using css by simp
      moreover have "?each (operand # rest) tys ?css"
      proof (intro allI impI)
        fix i assume i: "i < length (operand # rest)"
        show "case isTensorTypeOrWrappedTensorType (getType ((operand # rest) ! i)) of
             AssertionFailed \<Rightarrow> False
           | Returned True \<Rightarrow>
               (\<exists>rankArg dtypeArg b1 b2 b3.
                  ?css ! i = [rankArg, dtypeArg] \<and>
                  Suc (length (concat (take i ?css))) < length tys \<and>
                  adj b1 ((operand # rest) ! i) (tys ! length (concat (take i ?css)))
                    (Some rankArgAdjuster) = (Some rankArg, b2) \<and>
                  adj b2 ((operand # rest) ! i) (tys ! Suc (length (concat (take i ?css))))
                    (Some dtypeArgAdjuster) = (Some dtypeArg, b3))
           | Returned False \<Rightarrow>
               (\<exists>otherArg b1 b2.
                  ?css ! i = [otherArg] \<and>
                  length (concat (take i ?css)) < length tys \<and>
                  adj b1 ((operand # rest) ! i) (tys ! length (concat (take i ?css))) None
                    = (Some otherArg, b2))"
        proof (cases i)
          case 0
          with Returned True r d tys show ?thesis by auto
        next
          case (Suc j)
          with i have j: "j < length rest" by simp
          from each [rule_format, OF j] Suc tys show ?thesis
            by (auto split: run.splits bool.splits)
        qed
      qed
      ultimately show ?thesis by blast
    next
      case False
      with Cons.prems Returned obtain otherArg b1 where
        len: "tys \<noteq> []" and
        o: "adj b operand (hd tys) None = (Some otherArg, b1)" and
        rest: "dtypeFunctionArgsBuilder_loop adj b1 rest (tl tys) (acc @ [otherArg])
                 = Returned (Some (args, tys'), b')"
        by (auto split: if_splits prod.splits option.splits)
      from len obtain t1 ts where tys: "tys = t1 # ts"
        by (cases tys) auto
      from Cons.IH [OF rest] obtain css where
        css: "length css = length rest" "args = (acc @ [otherArg]) @ concat css" and
        each: "?each rest (tl tys) css"
        by blast
      let ?css = "[otherArg] # css"
      have "length ?css = length (operand # rest)" using css by simp
      moreover have "args = acc @ concat ?css" using css by simp
      moreover have "?each (operand # rest) tys ?css"
      proof (intro allI impI)
        fix i assume i: "i < length (operand # rest)"
        show "case isTensorTypeOrWrappedTensorType (getType ((operand # rest) ! i)) of
             AssertionFailed \<Rightarrow> False
           | Returned True \<Rightarrow>
               (\<exists>rankArg dtypeArg b1 b2 b3.
                  ?css ! i = [rankArg, dtypeArg] \<and>
                  Suc (length (concat (take i ?css))) < length tys \<and>
                  adj b1 ((operand # rest) ! i) (tys ! length (concat (take i ?css)))
                    (Some rankArgAdjuster) = (Some rankArg, b2) \<and>
                  adj b2 ((operand # rest) ! i) (tys ! Suc (length (concat (take i ?css))))
                    (Some dtypeArgAdjuster) = (Some dtypeArg, b3))
           | Returned False \<Rightarrow>
               (\<exists>otherArg b1 b2.
                  ?css ! i = [otherArg] \<and>
                  length (concat (take i ?css)) < length tys \<and>
                  adj b1 ((operand # rest) ! i) (tys ! length (concat (take i ?css))) None
                    = (Some otherArg, b2))"
        proof (cases i)
          case 0
          with Returned False o tys show ?thesis by auto
        next
          case (Suc j)
          with i have j: "j < length rest" by simp
          from each [rule_format, OF j] Suc tys show ?thesis
            by (auto split: run.splits bool.splits)
        qed
      qed
      ultimately show ?thesis by blast
    qed
  qed
qed

text \<open>A failure value comes out of the loop only from a failed adjustFunctionArg.\<close>

lemma loop_failure:
  "dtypeFunctionArgsBuilder_loop adj b ops tys acc = Returned (None, b') \<Longrightarrow>
   \<exists>b0 operand desiredType transformation.
     operand \<in> set ops \<and> desiredType \<in> set tys \<and>
     adj b0 operand desiredType transformation = (None, b')"
proof (induction ops arbitrary: b tys acc)
  case Nil
  then show ?case by simp
next
  case (Cons operand rest)
  from Cons.prems obtain t1 ts where tys: "tys = t1 # ts"
    by (cases tys) (auto split: if_splits)
  show ?case
  proof (cases "isTensorTypeOrWrappedTensorType (getType operand)")
    case AssertionFailed
    with Cons.prems tys show ?thesis by simp
  next
    case (Returned isT)
    show ?thesis
    proof (cases isT)
      case True
      with Cons.prems Returned tys obtain t2 ts' where ts: "ts = t2 # ts'"
        by (cases ts) (auto split: if_splits)
      obtain r b1 where a1: "adj b operand t1 (Some rankArgAdjuster) = (r, b1)"
        by (cases "adj b operand t1 (Some rankArgAdjuster)")
      show ?thesis
      proof (cases r)
        case None
        with Cons.prems Returned True tys ts a1
        have "adj b operand t1 (Some rankArgAdjuster) = (None, b')" by simp
        with tys show ?thesis by (intro exI [of _ b] exI [of _ operand] exI [of _ t1]
              exI [of _ "Some rankArgAdjuster"]) simp
      next
        case (Some rankArg)
        obtain d b2 where a2: "adj b1 operand t2 (Some dtypeArgAdjuster) = (d, b2)"
          by (cases "adj b1 operand t2 (Some dtypeArgAdjuster)")
        show ?thesis
        proof (cases d)
          case None
          with Cons.prems Returned True tys ts a1 Some a2
          have "adj b1 operand t2 (Some dtypeArgAdjuster) = (None, b')" by simp
          with tys ts show ?thesis by (intro exI [of _ b1] exI [of _ operand] exI [of _ t2]
                exI [of _ "Some dtypeArgAdjuster"]) simp
        next
          case (Some dtypeArg)
          with Cons.prems Returned True tys ts a1 \<open>r = Some rankArg\<close> a2
          have "dtypeFunctionArgsBuilder_loop adj b2 rest ts' (acc @ [rankArg, dtypeArg])
                  = Returned (None, b')" by simp
          from Cons.IH [OF this] obtain b0 x t tr where
            "x \<in> set rest" "t \<in> set ts'" "adj b0 x t tr = (None, b')" by blast
          with tys ts show ?thesis by (intro exI [of _ b0] exI [of _ x] exI [of _ t]
                exI [of _ tr]) simp
        qed
      qed
    next
      case False
      obtain r b1 where a1: "adj b operand t1 None = (r, b1)"
        by (cases "adj b operand t1 None")
      show ?thesis
      proof (cases r)
        case None
        with Cons.prems Returned False tys a1
        have "adj b operand t1 None = (None, b')" by simp
        with tys show ?thesis by (intro exI [of _ b] exI [of _ operand] exI [of _ t1]
              exI [of _ None]) simp
      next
        case (Some otherArg)
        with Cons.prems Returned False tys a1
        have "dtypeFunctionArgsBuilder_loop adj b1 rest ts (acc @ [otherArg])
                = Returned (None, b')" by simp
        from Cons.IH [OF this] obtain b0 x t tr where
          "x \<in> set rest" "t \<in> set ts" "adj b0 x t tr = (None, b')" by blast
        with tys show ?thesis by (intro exI [of _ b0] exI [of _ x] exI [of _ t]
              exI [of _ tr]) simp
      qed
    qed
  qed
qed

text \<open>The adjuster of the examples returns the transformed operand where its type fits.\<close>

lemma adjustFunctionArg_pass_through:
  "\<forall>b v t f. getType (fst (f b v t)) = t \<longrightarrow>
     adjustFunctionArg b v t (Some f) = (Some (fst (f b v t)), snd (f b v t))"
  by (simp add: adjustFunctionArg_def split: prod.splits)

lemma adjustFunctionArg_identity:
  "\<forall>b v. adjustFunctionArg b v (getType v) None = (Some v, b)"
  by (simp add: adjustFunctionArg_def)

lemma formatOp_not_adapted:
  "dtypeFunctionArgsBuilder adjustFunctionArg [] [Operand 2 (OtherType ''str'')] formatDtype
     = Returned (None, [])"
  by (simp add: dtypeFunctionArgsBuilder_def formatDtype_def adjustFunctionArg_def)

lemma addOp_adapted:
  "dtypeFunctionArgsBuilder adjustFunctionArg [] [Operand 0 ValueTensorType, Operand 1 IntType]
     addDtype =
   Returned (Some [AtenLenTOp IntType (AtenSizeOp (ListType IntType) (Operand 0 ValueTensorType)),
                   PrimDtypeOp IntType (Operand 0 ValueTensorType),
                   Operand 1 IntType],
             [AtenSizeOp (ListType IntType) (Operand 0 ValueTensorType),
              AtenLenTOp IntType (AtenSizeOp (ListType IntType) (Operand 0 ValueTensorType)),
              PrimDtypeOp IntType (Operand 0 ValueTensorType)])"
  by (simp add: dtypeFunctionArgsBuilder_def addDtype_def adjustFunctionArg_def
        rankArgAdjuster_def dtypeArgAdjuster_def create_def Let_def)

lemma int_operand_adapted:
  "dtypeFunctionArgsBuilder_loop adjustFunctionArg [] [Operand 1 IntType]
     (getArgumentTypes tanhDtype) [] = Returned (Some ([Operand 1 IntType], [IntType]), [])"
  by (simp add: tanhDtype_def adjustFunctionArg_def)

text \<open>
  C1. When dtypeFunctionArgsBuilder succeeds, the adapted list is the concatenation, in
  the operands' order, of one contribution per operand. A tensor-or-wrapped-tensor operand
  contributes exactly two consecutive values: what adjustFunctionArg made of it with the
  rank adjuster for the slot the cursor stood on, then what it made of it with the dtype
  adjuster for the next slot. Every other operand contributes exactly one value: what
  adjustFunctionArg made of it, with no base transformation, for the slot the cursor
  stood on. The cursor's position is the number of values contributed before.

  Where adjustFunctionArg returns the transformed operand whose type is the declared
  one, an operand that is directly a tensor, met at two Int slots, contributes the
  list-length of its size-list and then its dtype extraction; and where it returns an
  untransformed operand whose type is the declared one, an operand that bears no tensor
  contributes itself.
\<close>

theorem dtypeFunctionArgsBuilder_contributions:
  assumes "dtypeFunctionArgsBuilder adj b operands dtypeFunc = Returned (Some args, b')"
  shows "\<exists>css. length css = length operands \<and> args = concat css \<and>
     (\<forall>i<length operands.
        (case isTensorTypeOrWrappedTensorType (getType (operands ! i)) of
           AssertionFailed \<Rightarrow> False
         | Returned True \<Rightarrow>
             (\<exists>rankArg dtypeArg b1 b2 b3.
                css ! i = [rankArg, dtypeArg] \<and>
                Suc (length (concat (take i css))) < length (getArgumentTypes dtypeFunc) \<and>
                adj b1 (operands ! i)
                  (getArgumentTypes dtypeFunc ! length (concat (take i css)))
                  (Some rankArgAdjuster) = (Some rankArg, b2) \<and>
                adj b2 (operands ! i)
                  (getArgumentTypes dtypeFunc ! Suc (length (concat (take i css))))
                  (Some dtypeArgAdjuster) = (Some dtypeArg, b3))
         | Returned False \<Rightarrow>
             (\<exists>otherArg b1 b2.
                css ! i = [otherArg] \<and>
                length (concat (take i css)) < length (getArgumentTypes dtypeFunc) \<and>
                adj b1 (operands ! i)
                  (getArgumentTypes dtypeFunc ! length (concat (take i css))) None
                  = (Some otherArg, b2)))) \<and>
     ((\<forall>b v t f. getType (fst (f b v t)) = t \<longrightarrow>
          adj b v t (Some f) = (Some (fst (f b v t)), snd (f b v t))) \<longrightarrow>
      (\<forall>i<length operands.
         isa_BaseTensorType (getType (operands ! i)) \<and>
         getArgumentTypes dtypeFunc ! length (concat (take i css)) = IntType \<and>
         getArgumentTypes dtypeFunc ! Suc (length (concat (take i css))) = IntType \<longrightarrow>
         css ! i = [AtenLenTOp IntType (AtenSizeOp (ListType IntType) (operands ! i)),
                    PrimDtypeOp IntType (operands ! i)])) \<and>
     ((\<forall>b v. adj b v (getType v) None = (Some v, b)) \<longrightarrow>
      (\<forall>i<length operands.
         isTensorTypeOrWrappedTensorType (getType (operands ! i)) = Returned False \<and>
         getArgumentTypes dtypeFunc ! length (concat (take i css)) = getType (operands ! i) \<longrightarrow>
         css ! i = [operands ! i]))"
proof -
  let ?tys = "getArgumentTypes dtypeFunc"
  from assms obtain tys' where
    "dtypeFunctionArgsBuilder_loop adj b operands ?tys [] = Returned (Some (args, tys'), b')"
    by (auto simp: dtypeFunctionArgsBuilder_def split: run.splits prod.splits option.splits)
  from loop_contributions [OF this] obtain css where
    len: "length css = length operands" and cat: "args = concat css" and
    each: "\<forall>i<length operands.
        (case isTensorTypeOrWrappedTensorType (getType (operands ! i)) of
           AssertionFailed \<Rightarrow> False
         | Returned True \<Rightarrow>
             (\<exists>rankArg dtypeArg b1 b2 b3.
                css ! i = [rankArg, dtypeArg] \<and>
                Suc (length (concat (take i css))) < length ?tys \<and>
                adj b1 (operands ! i) (?tys ! length (concat (take i css)))
                  (Some rankArgAdjuster) = (Some rankArg, b2) \<and>
                adj b2 (operands ! i) (?tys ! Suc (length (concat (take i css))))
                  (Some dtypeArgAdjuster) = (Some dtypeArg, b3))
         | Returned False \<Rightarrow>
             (\<exists>otherArg b1 b2.
                css ! i = [otherArg] \<and>
                length (concat (take i css)) < length ?tys \<and>
                adj b1 (operands ! i) (?tys ! length (concat (take i css))) None
                  = (Some otherArg, b2)))"
    by auto
  have tensor: "css ! i = [AtenLenTOp IntType (AtenSizeOp (ListType IntType) (operands ! i)),
                           PrimDtypeOp IntType (operands ! i)]"
    if contract: "\<forall>b v t f. getType (fst (f b v t)) = t \<longrightarrow>
          adj b v t (Some f) = (Some (fst (f b v t)), snd (f b v t))"
      and i: "i < length operands"
      and t: "isa_BaseTensorType (getType (operands ! i))"
      and s1: "?tys ! length (concat (take i css)) = IntType"
      and s2: "?tys ! Suc (length (concat (take i css))) = IntType"
    for i
  proof -
    from each [rule_format, OF i] tensor_type_classified [OF t] s1 s2
    obtain rankArg dtypeArg b1 b2 b3 where
      c: "css ! i = [rankArg, dtypeArg]" and
      r: "adj b1 (operands ! i) IntType (Some rankArgAdjuster) = (Some rankArg, b2)" and
      d: "adj b2 (operands ! i) IntType (Some dtypeArgAdjuster) = (Some dtypeArg, b3)"
      by auto
    from contract [rule_format, of rankArgAdjuster b1 "operands ! i" IntType]
      rankArgAdjuster_tensor [OF t, of b1]
    have "adj b1 (operands ! i) IntType (Some rankArgAdjuster) =
        (Some (AtenLenTOp IntType (AtenSizeOp (ListType IntType) (operands ! i))),
         b1 @ [AtenSizeOp (ListType IntType) (operands ! i),
               AtenLenTOp IntType (AtenSizeOp (ListType IntType) (operands ! i))])"
      by simp
    with r have rank: "rankArg = AtenLenTOp IntType (AtenSizeOp (ListType IntType) (operands ! i))"
      by simp
    from contract [rule_format, of dtypeArgAdjuster b2 "operands ! i" IntType]
      dtypeArgAdjuster_tensor [OF t, of b2]
    have "adj b2 (operands ! i) IntType (Some dtypeArgAdjuster) =
        (Some (PrimDtypeOp IntType (operands ! i)), b2 @ [PrimDtypeOp IntType (operands ! i)])"
      by simp
    with d have "dtypeArg = PrimDtypeOp IntType (operands ! i)" by simp
    with rank c show ?thesis by simp
  qed
  have other: "css ! i = [operands ! i]"
    if contract: "\<forall>b v. adj b v (getType v) None = (Some v, b)"
      and i: "i < length operands"
      and f: "isTensorTypeOrWrappedTensorType (getType (operands ! i)) = Returned False"
      and s: "?tys ! length (concat (take i css)) = getType (operands ! i)"
    for i
  proof -
    from each [rule_format, OF i] f s obtain otherArg b1 b2 where
      c: "css ! i = [otherArg]" and
      a: "adj b1 (operands ! i) (getType (operands ! i)) None = (Some otherArg, b2)"
      by auto
    from a contract [rule_format, of b1 "operands ! i"] have "otherArg = operands ! i" by simp
    with c show ?thesis by simp
  qed
  from len cat each tensor other show ?thesis
    by (intro exI [of _ css] conjI impI allI) blast+
qed

theorem dtypeFunctionArgsBuilder_contributions_witness:
  "dtypeFunctionArgsBuilder adjustFunctionArg [] [Operand 0 ValueTensorType, Operand 1 IntType]
     addDtype =
   Returned (Some [AtenLenTOp IntType (AtenSizeOp (ListType IntType) (Operand 0 ValueTensorType)),
                   PrimDtypeOp IntType (Operand 0 ValueTensorType),
                   Operand 1 IntType],
             [AtenSizeOp (ListType IntType) (Operand 0 ValueTensorType),
              AtenLenTOp IntType (AtenSizeOp (ListType IntType) (Operand 0 ValueTensorType)),
              PrimDtypeOp IntType (Operand 0 ValueTensorType)]) \<and>
   (\<exists>css. length css = 2 \<and>
      [AtenLenTOp IntType (AtenSizeOp (ListType IntType) (Operand 0 ValueTensorType)),
       PrimDtypeOp IntType (Operand 0 ValueTensorType),
       Operand 1 IntType] = concat css \<and>
      css ! 0 = [AtenLenTOp IntType (AtenSizeOp (ListType IntType) (Operand 0 ValueTensorType)),
                 PrimDtypeOp IntType (Operand 0 ValueTensorType)] \<and>
      css ! 1 = [Operand 1 IntType])"
proof -
  let ?ops = "[Operand 0 ValueTensorType, Operand 1 IntType]"
  from dtypeFunctionArgsBuilder_contributions [OF addOp_adapted] obtain css where
    len: "length css = length ?ops" and
    cat: "[AtenLenTOp IntType (AtenSizeOp (ListType IntType) (Operand 0 ValueTensorType)),
           PrimDtypeOp IntType (Operand 0 ValueTensorType),
           Operand 1 IntType] = concat css" and
    tensor: "(\<forall>b v t f. getType (fst (f b v t)) = t \<longrightarrow>
          adjustFunctionArg b v t (Some f) = (Some (fst (f b v t)), snd (f b v t))) \<longrightarrow>
      (\<forall>i<length ?ops.
         isa_BaseTensorType (getType (?ops ! i)) \<and>
         getArgumentTypes addDtype ! length (concat (take i css)) = IntType \<and>
         getArgumentTypes addDtype ! Suc (length (concat (take i css))) = IntType \<longrightarrow>
         css ! i = [AtenLenTOp IntType (AtenSizeOp (ListType IntType) (?ops ! i)),
                    PrimDtypeOp IntType (?ops ! i)])" and
    other: "(\<forall>b v. adjustFunctionArg b v (getType v) None = (Some v, b)) \<longrightarrow>
      (\<forall>i<length ?ops.
         isTensorTypeOrWrappedTensorType (getType (?ops ! i)) = Returned False \<and>
         getArgumentTypes addDtype ! length (concat (take i css)) = getType (?ops ! i) \<longrightarrow>
         css ! i = [?ops ! i])"
    by blast
  from len obtain x y where css: "css = [x, y]"
    by (cases css; cases "tl css") auto
  from tensor [rule_format, OF adjustFunctionArg_pass_through [rule_format], of 0]
  have x: "x = [AtenLenTOp IntType (AtenSizeOp (ListType IntType) (Operand 0 ValueTensorType)),
                PrimDtypeOp IntType (Operand 0 ValueTensorType)]"
    by (simp add: css addDtype_def)
  from other [rule_format, OF adjustFunctionArg_identity [rule_format], of 1]
  have y: "y = [Operand 1 IntType]"
    by (simp add: css x addDtype_def)
  have "length css = 2 \<and>
      [AtenLenTOp IntType (AtenSizeOp (ListType IntType) (Operand 0 ValueTensorType)),
       PrimDtypeOp IntType (Operand 0 ValueTensorType),
       Operand 1 IntType] = concat css \<and>
      css ! 0 = [AtenLenTOp IntType (AtenSizeOp (ListType IntType) (Operand 0 ValueTensorType)),
                 PrimDtypeOp IntType (Operand 0 ValueTensorType)] \<and>
      css ! 1 = [Operand 1 IntType]"
    by (simp add: css x y)
  with addOp_adapted show ?thesis by blast
qed

text \<open>
  C2, as the code has it. A tensor-or-wrapped-tensor operand reached when fewer than two
  signature slots remain does not make dtypeFunctionArgsBuilder return a failure value:
  the builder fails an assertion, which stops the process. A failure value is returned
  only when adjustFunctionArg fails: on one of the operands, for one of the declared
  types.
\<close>

theorem dtypeFunctionArgsBuilder_short_signature_asserts:
  "(dtypeFunctionArgsBuilder_loop adj b pre (getArgumentTypes dtypeFunc) []
      = Returned (Some (args, desiredTypes), b1) \<and>
    isTensorTypeOrWrappedTensorType (getType operand) = Returned True \<and>
    length desiredTypes < 2
    \<longrightarrow> dtypeFunctionArgsBuilder adj b (pre @ operand # rest) dtypeFunc = AssertionFailed) \<and>
   (dtypeFunctionArgsBuilder adj b operands dtypeFunc = Returned (None, b')
    \<longrightarrow> (\<exists>b0 failing desiredType transformation.
           failing \<in> set operands \<and> desiredType \<in> set (getArgumentTypes dtypeFunc) \<and>
           adj b0 failing desiredType transformation = (None, b')))"
proof (intro conjI impI)
  assume "dtypeFunctionArgsBuilder_loop adj b pre (getArgumentTypes dtypeFunc) []
      = Returned (Some (args, desiredTypes), b1) \<and>
    isTensorTypeOrWrappedTensorType (getType operand) = Returned True \<and>
    length desiredTypes < 2"
  then show "dtypeFunctionArgsBuilder adj b (pre @ operand # rest) dtypeFunc = AssertionFailed"
    by (simp add: dtypeFunctionArgsBuilder_def loop_append)
next
  assume "dtypeFunctionArgsBuilder adj b operands dtypeFunc = Returned (None, b')"
  then have "dtypeFunctionArgsBuilder_loop adj b operands (getArgumentTypes dtypeFunc) []
      = Returned (None, b')"
    by (auto simp: dtypeFunctionArgsBuilder_def split: run.splits prod.splits option.splits)
  from loop_failure [OF this]
  show "\<exists>b0 failing desiredType transformation.
           failing \<in> set operands \<and> desiredType \<in> set (getArgumentTypes dtypeFunc) \<and>
           adj b0 failing desiredType transformation = (None, b')" .
qed

theorem dtypeFunctionArgsBuilder_short_signature_asserts_witness:
  "dtypeFunctionArgsBuilder_loop adjustFunctionArg [] [Operand 1 IntType]
     (getArgumentTypes tanhDtype) [] = Returned (Some ([Operand 1 IntType], [IntType]), []) \<and>
   isTensorTypeOrWrappedTensorType (getType (Operand 0 ValueTensorType)) = Returned True \<and>
   dtypeFunctionArgsBuilder adjustFunctionArg []
     ([Operand 1 IntType] @ Operand 0 ValueTensorType # []) tanhDtype = AssertionFailed \<and>
   dtypeFunctionArgsBuilder adjustFunctionArg [] [Operand 2 (OtherType ''str'')] formatDtype
     = Returned (None, []) \<and>
   (\<exists>b0 transformation.
      adjustFunctionArg b0 (Operand 2 (OtherType ''str'')) IntType transformation = (None, []))"
proof -
  have t: "isTensorTypeOrWrappedTensorType (getType (Operand 0 ValueTensorType)) = Returned True"
    by simp
  have l: "length [IntType] < 2" by simp
  note short = dtypeFunctionArgsBuilder_short_signature_asserts
    [of adjustFunctionArg "[]" "[Operand 1 IntType]" tanhDtype "[Operand 1 IntType]"
        "[IntType]" "[]" "Operand 0 ValueTensorType" "[]"]
  from short int_operand_adapted t l
  have a: "dtypeFunctionArgsBuilder adjustFunctionArg []
     ([Operand 1 IntType] @ Operand 0 ValueTensorType # []) tanhDtype = AssertionFailed"
    by blast
  note failed = dtypeFunctionArgsBuilder_short_signature_asserts
    [of adjustFunctionArg "[]" "[]" formatDtype "[]" "getArgumentTypes formatDtype" "[]"
        "Operand 0 ValueTensorType" "[]" "[Operand 2 (OtherType ''str'')]" "[]"]
  from failed formatOp_not_adapted obtain b0 failing desiredType transformation where
    f: "failing \<in> set [Operand 2 (OtherType ''str'')]"
       "desiredType \<in> set (getArgumentTypes formatDtype)"
       "adjustFunctionArg b0 failing desiredType transformation = (None, [])"
    by blast
  from f have "adjustFunctionArg b0 (Operand 2 (OtherType ''str'')) IntType transformation
      = (None, [])"
    by (simp add: formatDtype_def)
  then have "\<exists>b0 transformation.
      adjustFunctionArg b0 (Operand 2 (OtherType ''str'')) IntType transformation = (None, [])"
    by blast
  with a int_operand_adapted t formatOp_not_adapted show ?thesis by blast
qed

text \<open>
  The claim of C2 fails on a tensor operand and a dtype function with a single parameter:
  the result is the failed assertion, not a failure value.
\<close>

theorem dtypeFunctionArgsBuilder_short_signature_counterexample:
  "isTensorTypeOrWrappedTensorType (getType (Operand 0 ValueTensorType)) = Returned True \<and>
   length (getArgumentTypes formatDtype) < 2 \<and>
   dtypeFunctionArgsBuilder adjustFunctionArg [] [Operand 0 ValueTensorType] formatDtype
     = AssertionFailed"
  by (simp add: dtypeFunctionArgsBuilder_def formatDtype_def)

text \<open>
  C3, as the code has it. When dtypeFunctionArgsBuilder succeeds, the number of adapted
  operands is the number of signature slots the cursor has consumed: one per operand and
  one more per tensor-bearing operand. Together with the slots left under the cursor
  this is the declared arity, so the number equals the arity exactly when no slot is
  left; the builder does not check that none is.
\<close>

theorem dtypeFunctionArgsBuilder_consumed_slots:
  assumes "dtypeFunctionArgsBuilder adj b operands dtypeFunc = Returned (Some args, b')"
  shows "\<exists>desiredTypes.
     dtypeFunctionArgsBuilder_loop adj b operands (getArgumentTypes dtypeFunc) []
       = Returned (Some (args, desiredTypes), b') \<and>
     length args + length desiredTypes = length (getArgumentTypes dtypeFunc) \<and>
     (length args = length (getArgumentTypes dtypeFunc)) = (desiredTypes = []) \<and>
     length args = length operands
       + length (filter (\<lambda>v. isTensorTypeOrWrappedTensorType (getType v) = Returned True)
                   operands)"
proof -
  from assms obtain tys' where
    l: "dtypeFunctionArgsBuilder_loop adj b operands (getArgumentTypes dtypeFunc) []
       = Returned (Some (args, tys'), b')"
    by (auto simp: dtypeFunctionArgsBuilder_def split: run.splits prod.splits option.splits)
  from loop_lengths [OF l] have
    "length args + length tys' = length (getArgumentTypes dtypeFunc)" and
    "length args = length operands
       + length (filter (\<lambda>v. isTensorTypeOrWrappedTensorType (getType v) = Returned True)
                   operands)"
    by simp_all
  moreover from this(1) have
    "(length args = length (getArgumentTypes dtypeFunc)) = (tys' = [])"
    by auto
  ultimately show ?thesis using l by blast
qed

theorem dtypeFunctionArgsBuilder_consumed_slots_witness:
  "dtypeFunctionArgsBuilder adjustFunctionArg [] [Operand 1 IntType] tanhDtype
     = Returned (Some [Operand 1 IntType], []) \<and>
   (\<exists>desiredTypes.
      dtypeFunctionArgsBuilder_loop adjustFunctionArg [] [Operand 1 IntType]
        (getArgumentTypes tanhDtype) [] = Returned (Some ([Operand 1 IntType], desiredTypes), []) \<and>
      length [Operand 1 IntType] + length desiredTypes = length (getArgumentTypes tanhDtype))"
proof -
  have h: "dtypeFunctionArgsBuilder adjustFunctionArg [] [Operand 1 IntType] tanhDtype
     = Returned (Some [Operand 1 IntType], [])"
    by (simp only: dtypeFunctionArgsBuilder_def int_operand_adapted run.case prod.case option.case)
  from dtypeFunctionArgsBuilder_consumed_slots [OF h] h show ?thesis by blast
qed

text \<open>
  The claim of C3 fails on one integer operand and a dtype function with two parameters:
  the builder succeeds with one adapted operand.
\<close>

theorem dtypeFunctionArgsBuilder_arity_counterexample:
  "dtypeFunctionArgsBuilder adjustFunctionArg [] [Operand 1 IntType] tanhDtype
     = Returned (Some [Operand 1 IntType], []) \<and>
   length [Operand 1 IntType] \<noteq> length (getArgumentTypes tanhDtype)"
  by (simp add: dtypeFunctionArgsBuilder_def tanhDtype_def adjustFunctionArg_def)

text \<open>
  C7. Let adjustFunctionArg return the transformed operand where its type is the
  declared one. For an operand list (tensor, i) and a dtype function with signature
  (int, int, int), a successful adaptation yields exactly three values: the result of the
  list-length instruction applied to the result of the size-list instruction on the
  tensor, the result of the dtype-extraction instruction on the tensor, and the value
  adjustFunctionArg makes of i for the third slot. The three instructions are emitted in
  that order before i is adjusted.
\<close>

theorem dtypeFunctionArgsBuilder_tensor_int:
  assumes "\<forall>b v t f. getType (fst (f b v t)) = t \<longrightarrow>
             adj b v t (Some f) = (Some (fst (f b v t)), snd (f b v t))"
    and "isa_BaseTensorType (getType tensor)"
    and "dtypeFunctionArgsBuilder adj b [tensor, i]
           \<lparr>symName = nm, getArgumentTypes = [IntType, IntType, IntType]\<rparr>
           = Returned (Some args, b')"
  shows "\<exists>adjusted.
           args = [AtenLenTOp IntType (AtenSizeOp (ListType IntType) tensor),
                   PrimDtypeOp IntType tensor, adjusted] \<and>
           adj (b @ [AtenSizeOp (ListType IntType) tensor,
                     AtenLenTOp IntType (AtenSizeOp (ListType IntType) tensor),
                     PrimDtypeOp IntType tensor]) i IntType None = (Some adjusted, b')"
proof -
  have t: "isTensorTypeOrWrappedTensorType (getType tensor) = Returned True"
    using assms(2) by (cases "getType tensor") simp_all
  have r: "rankArgAdjuster b tensor IntType =
      (AtenLenTOp IntType (AtenSizeOp (ListType IntType) tensor),
       b @ [AtenSizeOp (ListType IntType) tensor,
            AtenLenTOp IntType (AtenSizeOp (ListType IntType) tensor)])"
    using assms(2) by (rule rankArgAdjuster_tensor)
  have d: "\<And>b. dtypeArgAdjuster b tensor IntType =
      (PrimDtypeOp IntType tensor, b @ [PrimDtypeOp IntType tensor])"
    using assms(2) by (rule dtypeArgAdjuster_tensor)
  have ar: "adj b tensor IntType (Some rankArgAdjuster) =
      (Some (AtenLenTOp IntType (AtenSizeOp (ListType IntType) tensor)),
       b @ [AtenSizeOp (ListType IntType) tensor,
            AtenLenTOp IntType (AtenSizeOp (ListType IntType) tensor)])"
    using assms(1) [rule_format, of rankArgAdjuster b tensor IntType] r by simp
  have ad: "\<And>b. adj b tensor IntType (Some dtypeArgAdjuster) =
      (Some (PrimDtypeOp IntType tensor), b @ [PrimDtypeOp IntType tensor])"
    using assms(1) [rule_format, of dtypeArgAdjuster _ tensor IntType] d by simp
  from assms(3) show ?thesis
    by (auto simp: dtypeFunctionArgsBuilder_def t ar ad
             split: run.splits prod.splits option.splits bool.splits if_splits)
qed

theorem dtypeFunctionArgsBuilder_tensor_int_witness:
  "dtypeFunctionArgsBuilder adjustFunctionArg [] [Operand 0 ValueTensorType, Operand 1 IntType]
     \<lparr>symName = ''add_dtype'', getArgumentTypes = [IntType, IntType, IntType]\<rparr> =
   Returned (Some [AtenLenTOp IntType (AtenSizeOp (ListType IntType) (Operand 0 ValueTensorType)),
                   PrimDtypeOp IntType (Operand 0 ValueTensorType),
                   Operand 1 IntType],
             [AtenSizeOp (ListType IntType) (Operand 0 ValueTensorType),
              AtenLenTOp IntType (AtenSizeOp (ListType IntType) (Operand 0 ValueTensorType)),
              PrimDtypeOp IntType (Operand 0 ValueTensorType)]) \<and>
   (\<exists>adjusted.
      [AtenLenTOp IntType (AtenSizeOp (ListType IntType) (Operand 0 ValueTensorType)),
       PrimDtypeOp IntType (Operand 0 ValueTensorType),
       Operand 1 IntType] =
      [AtenLenTOp IntType (AtenSizeOp (ListType IntType) (Operand 0 ValueTensorType)),
       PrimDtypeOp IntType (Operand 0 ValueTensorType), adjusted] \<and>
      adjustFunctionArg
        ([] @ [AtenSizeOp (ListType IntType) (Operand 0 ValueTensorType),
               AtenLenTOp IntType (AtenSizeOp (ListType IntType) (Operand 0 ValueTensorType)),
               PrimDtypeOp IntType (Operand 0 ValueTensorType)])
        (Operand 1 IntType) IntType None =
      (Some adjusted,
       [AtenSizeOp (ListType IntType) (Operand 0 ValueTensorType),
        AtenLenTOp IntType (AtenSizeOp (ListType IntType) (Operand 0 ValueTensorType)),
        PrimDtypeOp IntType (Operand 0 ValueTensorType)]))"
proof -
  have t: "isa_BaseTensorType (getType (Operand 0 ValueTensorType))" by simp
  note h = addOp_adapted [unfolded addDtype_def]
  from dtypeFunctionArgsBuilder_tensor_int [OF adjustFunctionArg_pass_through t h] h
  show ?thesis by blast
qed

section \<open>Properties of runOnOperation\<close>

lemma walk_append:
  "walk cb (xs @ ys) s =
     (case walk cb xs s of
        AssertionFailed \<Rightarrow> AssertionFailed
      | Returned (Interrupt, s') \<Rightarrow> Returned (Interrupt, s')
      | Returned (Advance, s') \<Rightarrow> walk cb ys s')"
  by (induction xs arbitrary: s) (auto split: run.splits prod.splits WalkResult.splits)

text \<open>An interrupted walk was interrupted by the callback on one of its operations.\<close>

lemma walk_interrupted:
  "walk cb ops s = Returned (Interrupt, s') \<Longrightarrow>
   \<exists>pre op post s1. ops = pre @ op # post \<and> walk cb pre s = Returned (Advance, s1) \<and>
      cb op s1 = Returned (Interrupt, s')"
proof (induction ops arbitrary: s)
  case Nil
  then show ?case by simp
next
  case (Cons x xs)
  show ?case
  proof (cases "cb x s")
    case AssertionFailed
    with Cons.prems show ?thesis by simp
  next
    case (Returned r)
    obtain w s1 where r: "r = (w, s1)" by (cases r)
    show ?thesis
    proof (cases w)
      case Interrupt
      with Cons.prems Returned r have "cb x s = Returned (Interrupt, s')" by simp
      then have "x # xs = [] @ x # xs \<and> walk cb [] s = Returned (Advance, s) \<and>
          cb x s = Returned (Interrupt, s')" by simp
      then show ?thesis by blast
    next
      case Advance
      with Cons.prems Returned r have "walk cb xs s1 = Returned (Interrupt, s')" by simp
      from Cons.IH [OF this] obtain pre op post s2 where
        p: "xs = pre @ op # post" "walk cb pre s1 = Returned (Advance, s2)"
           "cb op s2 = Returned (Interrupt, s')" by blast
      from p Returned r Advance have "x # xs = (x # pre) @ op # post \<and>
          walk cb (x # pre) s = Returned (Advance, s2) \<and> cb op s2 = Returned (Interrupt, s')"
        by simp
      then show ?thesis by blast
    qed
  qed
qed

text \<open>The wrap utility of the examples on the operations of the examples.\<close>

lemma wrap_tanhOp:
  "wrapWithCalculateOpIfLibraryFunctionAvailable tanhOp exampleLibrary DtypeFunction []
     (dtypeFunctionArgsBuilder adjustFunctionArg) emptyModule =
   Returned (Advance, [''tanh_dtype''], tanhWrappedModule)"
  by (simp add: wrapWithCalculateOpIfLibraryFunctionAvailable_def exampleLibrary_def
        tanhOp_def tanhDtype_def emptyModule_def tanhWrappedModule_def includeName_def
        dtypeFunctionArgsBuilder_def adjustFunctionArg_def rankArgAdjuster_def
        dtypeArgAdjuster_def create_def Let_def)

lemma wrap_formatOp:
  "wrapWithCalculateOpIfLibraryFunctionAvailable formatOp exampleLibrary DtypeFunction
     [''tanh_dtype''] (dtypeFunctionArgsBuilder adjustFunctionArg) tanhWrappedModule =
   Returned (Interrupt, [''tanh_dtype''], tanhWrappedModule)"
  by (simp add: wrapWithCalculateOpIfLibraryFunctionAvailable_def exampleLibrary_def
        formatOp_def formatDtype_def tanhWrappedModule_def
        dtypeFunctionArgsBuilder_def adjustFunctionArg_def)

lemma walk_tanhOp:
  "walkModule wrapWithCalculateOpIfLibraryFunctionAvailable adjustFunctionArg exampleLibrary
     emptyModule [tanhOp] = Returned (Advance, [''tanh_dtype''], tanhWrappedModule)"
  by (simp add: walkModule_def wrap_tanhOp)

text \<open>
  C6. If the wrap of one operation interrupts the walk, the pass signals failure and
  never calls importLibraryFunctions; the operations wrapped before stay wrapped. If the
  walk completes, the pass signals no failure and calls importLibraryFunctions exactly
  once, with the names accumulated in functionsNeeded. A pass that signalled failure
  called no import and was interrupted by the wrap of one of the module's operations.
\<close>

theorem runOnOperation_all_or_nothing:
  "(walkModule wrapWithCalculateOp adj lib m pre = Returned (Advance, names1, m1) \<and>
    wrapWithCalculateOp op lib DtypeFunction names1 (dtypeFunctionArgsBuilder adj) m1
      = Returned (Interrupt, names2, m2)
    \<longrightarrow> runOnOperation wrapWithCalculateOp importFunctions adj lib m (pre @ op # post)
          = Returned \<lparr>signalledFailure = True, importCalls = [], moduleOp = m2\<rparr>) \<and>
   (walkModule wrapWithCalculateOp adj lib m ops = Returned (Advance, functionsNeeded, m')
    \<longrightarrow> runOnOperation wrapWithCalculateOp importFunctions adj lib m ops
          = Returned \<lparr>signalledFailure = False, importCalls = [functionsNeeded],
                       moduleOp = importFunctions m' lib functionsNeeded\<rparr>) \<and>
   (runOnOperation wrapWithCalculateOp importFunctions adj lib m ops = Returned st \<and>
    signalledFailure st
    \<longrightarrow> importCalls st = [] \<and>
        (\<exists>pre op post names1 m1 names2.
           ops = pre @ op # post \<and>
           walkModule wrapWithCalculateOp adj lib m pre = Returned (Advance, names1, m1) \<and>
           wrapWithCalculateOp op lib DtypeFunction names1 (dtypeFunctionArgsBuilder adj) m1
             = Returned (Interrupt, names2, moduleOp st)))"
proof (intro conjI impI)
  assume "walkModule wrapWithCalculateOp adj lib m pre = Returned (Advance, names1, m1) \<and>
    wrapWithCalculateOp op lib DtypeFunction names1 (dtypeFunctionArgsBuilder adj) m1
      = Returned (Interrupt, names2, m2)"
  then show "runOnOperation wrapWithCalculateOp importFunctions adj lib m (pre @ op # post)
          = Returned \<lparr>signalledFailure = True, importCalls = [], moduleOp = m2\<rparr>"
    by (simp add: runOnOperation_def walkModule_def walk_append wasInterrupted_def)
next
  assume "walkModule wrapWithCalculateOp adj lib m ops = Returned (Advance, functionsNeeded, m')"
  then show "runOnOperation wrapWithCalculateOp importFunctions adj lib m ops
          = Returned \<lparr>signalledFailure = False, importCalls = [functionsNeeded],
                       moduleOp = importFunctions m' lib functionsNeeded\<rparr>"
    by (simp add: runOnOperation_def wasInterrupted_def)
next
  assume a: "runOnOperation wrapWithCalculateOp importFunctions adj lib m ops = Returned st \<and>
    signalledFailure st"
  then show "importCalls st = []"
    by (auto simp: runOnOperation_def split: run.splits prod.splits if_splits)
  from a obtain names2 where
    w: "walkModule wrapWithCalculateOp adj lib m ops = Returned (Interrupt, names2, moduleOp st)"
    by (auto simp: runOnOperation_def wasInterrupted_def split: run.splits prod.splits if_splits)
  from walk_interrupted [OF w [unfolded walkModule_def]] obtain pre op post s1 where
    p: "ops = pre @ op # post"
       "walk (\<lambda>op (functionsNeeded, m).
             wrapWithCalculateOp op lib DtypeFunction functionsNeeded
               (dtypeFunctionArgsBuilder adj) m) pre ([], m) = Returned (Advance, s1)"
       "(\<lambda>op (functionsNeeded, m).
             wrapWithCalculateOp op lib DtypeFunction functionsNeeded
               (dtypeFunctionArgsBuilder adj) m) op s1 = Returned (Interrupt, names2, moduleOp st)"
    by blast
  obtain names1 m1 where s1: "s1 = (names1, m1)" by (cases s1)
  from p s1 have "ops = pre @ op # post \<and>
           walkModule wrapWithCalculateOp adj lib m pre = Returned (Advance, names1, m1) \<and>
           wrapWithCalculateOp op lib DtypeFunction names1 (dtypeFunctionArgsBuilder adj) m1
             = Returned (Interrupt, names2, moduleOp st)"
    by (simp add: walkModule_def)
  then show "\<exists>pre op post names1 m1 names2.
           ops = pre @ op # post \<and>
           walkModule wrapWithCalculateOp adj lib m pre = Returned (Advance, names1, m1) \<and>
           wrapWithCalculateOp op lib DtypeFunction names1 (dtypeFunctionArgsBuilder adj) m1
             = Returned (Interrupt, names2, moduleOp st)"
    by blast
qed

theorem runOnOperation_all_or_nothing_witness:
  "runOnOperation wrapWithCalculateOpIfLibraryFunctionAvailable importLibraryFunctions
     adjustFunctionArg exampleLibrary emptyModule ([tanhOp] @ formatOp # [addOp])
     = Returned \<lparr>signalledFailure = True, importCalls = [], moduleOp = tanhWrappedModule\<rparr> \<and>
   runOnOperation wrapWithCalculateOpIfLibraryFunctionAvailable importLibraryFunctions
     adjustFunctionArg exampleLibrary emptyModule [tanhOp]
     = Returned \<lparr>signalledFailure = False, importCalls = [[''tanh_dtype'']],
                  moduleOp = importLibraryFunctions tanhWrappedModule exampleLibrary
                               [''tanh_dtype'']\<rparr>"
proof -
  note all = runOnOperation_all_or_nothing
    [of wrapWithCalculateOpIfLibraryFunctionAvailable adjustFunctionArg exampleLibrary
        emptyModule "[tanhOp]" "[''tanh_dtype'']" tanhWrappedModule formatOp
        "[''tanh_dtype'']" tanhWrappedModule importLibraryFunctions "[addOp]"
        "[tanhOp]" "[''tanh_dtype'']" tanhWrappedModule]
  from all walk_tanhOp wrap_formatOp show ?thesis by blast
qed

text \<open>What the contract of the wrap utility says for one call.\<close>

lemma wrapContract_no_match:
  assumes "wrapContract wrapWithCalculateOp"
    and "map_of lib (getName op, kind) = None"
  shows "wrapWithCalculateOp op lib kind neededSet adapter m = Returned (Advance, neededSet, m)"
proof -
  from assms(1) have "case map_of lib (getName op, kind) of
           None \<Rightarrow> wrapWithCalculateOp op lib kind neededSet adapter m
                     = Returned (Advance, neededSet, m)
         | Some shadow \<Rightarrow>
             (\<forall>neededSet' m'.
                wrapWithCalculateOp op lib kind neededSet adapter m
                  = Returned (Advance, neededSet', m')
                \<longrightarrow> neededSet' = includeName (symName shadow) neededSet)"
    unfolding wrapContract_def by (elim allE)
  with assms(2) show ?thesis by simp
qed

lemma wrapContract_match:
  assumes "wrapContract wrapWithCalculateOp"
    and "map_of lib (getName op, kind) = Some shadow"
    and "wrapWithCalculateOp op lib kind neededSet adapter m = Returned (Advance, neededSet', m')"
  shows "neededSet' = includeName (symName shadow) neededSet"
proof -
  from assms(1) have "case map_of lib (getName op, kind) of
           None \<Rightarrow> wrapWithCalculateOp op lib kind neededSet adapter m
                     = Returned (Advance, neededSet, m)
         | Some shadow \<Rightarrow>
             (\<forall>neededSet' m'.
                wrapWithCalculateOp op lib kind neededSet adapter m
                  = Returned (Advance, neededSet', m')
                \<longrightarrow> neededSet' = includeName (symName shadow) neededSet)"
    unfolding wrapContract_def by (elim allE)
  with assms(2,3) show ?thesis by simp
qed

text \<open>
  Under the contract the walk folds the names of the matched shadow functions into the
  needed-function set, in the order of the visits.
\<close>

lemma walk_names:
  assumes c: "wrapContract wrapWithCalculateOp"
  shows "walk (\<lambda>op (functionsNeeded, m).
             wrapWithCalculateOp op lib DtypeFunction functionsNeeded builder m)
           ops (acc, m) = Returned (Advance, names, m') \<Longrightarrow>
         names = foldl (\<lambda>ns n. includeName n ns) acc (shadowFunctionsUsed lib ops)"
proof (induction ops arbitrary: acc m)
  case Nil
  then show ?case by (simp add: shadowFunctionsUsed_def)
next
  case (Cons x xs)
  show ?case
  proof (cases "map_of lib (getName x, DtypeFunction)")
    case None
    with c have "wrapWithCalculateOp x lib DtypeFunction acc builder m = Returned (Advance, acc, m)"
      by (rule wrapContract_no_match)
    with Cons.prems have "walk (\<lambda>op (functionsNeeded, m).
             wrapWithCalculateOp op lib DtypeFunction functionsNeeded builder m)
           xs (acc, m) = Returned (Advance, names, m')" by simp
    from Cons.IH [OF this] None show ?thesis
      by (simp add: shadowFunctionsUsed_def)
  next
    case (Some shadow)
    from Cons.prems obtain acc1 m1 where
      w: "wrapWithCalculateOp x lib DtypeFunction acc builder m = Returned (Advance, acc1, m1)" and
      rest: "walk (\<lambda>op (functionsNeeded, m).
             wrapWithCalculateOp op lib DtypeFunction functionsNeeded builder m)
           xs (acc1, m1) = Returned (Advance, names, m')"
      by (auto split: run.splits prod.splits WalkResult.splits)
    from c Some w have "acc1 = includeName (symName shadow) acc"
      by (rule wrapContract_match)
    with Cons.IH [OF rest] Some show ?thesis
      by (simp add: shadowFunctionsUsed_def)
  qed
qed

lemma foldl_includeName:
  "foldl (\<lambda>ns n. includeName n ns) [] xs = rev (remdups (rev xs))"
  by (induction xs rule: rev_induct) (simp_all add: includeName_def)


lemma wrapContract_model: "wrapContract wrapWithCalculateOpIfLibraryFunctionAvailable"
  unfolding wrapContract_def wrapWithCalculateOpIfLibraryFunctionAvailable_def
  by (auto split: option.splits run.splits prod.splits)

text \<open>
  C8. Let the wrap utility meet its contract. After any number of operations visited
  without interruption, the needed-function collection has no duplicate, holds exactly
  the names of the shadow functions the wraps so far have used, and lists them in the
  order of their first use: it is the sequence of used names with every repeated
  occurrence dropped. It is not sorted.
\<close>

theorem functionsNeeded_first_discovery:
  assumes "wrapContract wrapWithCalculateOp"
    and "walkModule wrapWithCalculateOp adj lib m ops = Returned (Advance, functionsNeeded, m')"
  shows "distinct functionsNeeded \<and>
         set functionsNeeded = set (shadowFunctionsUsed lib ops) \<and>
         functionsNeeded = rev (remdups (rev (shadowFunctionsUsed lib ops)))"
proof -
  from walk_names [OF assms(1) assms(2) [unfolded walkModule_def]]
  have "functionsNeeded = rev (remdups (rev (shadowFunctionsUsed lib ops)))"
    by (simp add: foldl_includeName)
  then show ?thesis by simp
qed

theorem functionsNeeded_first_discovery_witness:
  "\<exists>m'. walkModule wrapWithCalculateOpIfLibraryFunctionAvailable adjustFunctionArg
           exampleLibrary emptyModule [tanhOp, addOp, tanhOp]
           = Returned (Advance, [''tanh_dtype'', ''add_dtype''], m') \<and>
         shadowFunctionsUsed exampleLibrary [tanhOp, addOp, tanhOp]
           = [''tanh_dtype'', ''add_dtype'', ''tanh_dtype''] \<and>
         distinct [''tanh_dtype'', ''add_dtype''] \<and>
         [''tanh_dtype'', ''add_dtype'']
           = rev (remdups (rev (shadowFunctionsUsed exampleLibrary [tanhOp, addOp, tanhOp])))"
proof -
  obtain m' where w: "walkModule wrapWithCalculateOpIfLibraryFunctionAvailable adjustFunctionArg
           exampleLibrary emptyModule [tanhOp, addOp, tanhOp]
           = Returned (Advance, [''tanh_dtype'', ''add_dtype''], m')"
    by (simp add: walkModule_def wrapWithCalculateOpIfLibraryFunctionAvailable_def
          exampleLibrary_def tanhOp_def addOp_def tanhDtype_def addDtype_def emptyModule_def
          includeName_def dtypeFunctionArgsBuilder_def adjustFunctionArg_def
          rankArgAdjuster_def dtypeArgAdjuster_def create_def Let_def)
  have u: "shadowFunctionsUsed exampleLibrary [tanhOp, addOp, tanhOp]
           = [''tanh_dtype'', ''add_dtype'', ''tanh_dtype'']"
    by (simp add: shadowFunctionsUsed_def exampleLibrary_def tanhOp_def addOp_def
          tanhDtype_def addDtype_def)
  from functionsNeeded_first_discovery [OF wrapContract_model w] w u show ?thesis by blast
qed




end
